theory Spec2Isabelle
  imports Complex_Main
begin

section \<open>Data model\<close>

text \<open>
  JSON values as Python's \<open>json.loads\<close> yields them. A dict is an association list
  (keys of a parsed object are unique); a float is the real it denotes, or one of the
  three non-finite values that \<open>json.loads\<close> accepts.
\<close>

datatype pyfloat = Finite real | PosInf | NegInf | NaN

datatype json =
    JNull
  | JBool bool
  | JInt int
  | JFloat pyfloat
  | JString string
  | JArray "json list"
  | JObject "(string \<times> json) list"

text \<open>Python truthiness: \<open>not v\<close> holds for exactly these values.\<close>

fun falsy :: "json \<Rightarrow> bool" where
  "falsy JNull = True"
| "falsy (JBool b) = (\<not> b)"
| "falsy (JInt i) = (i = 0)"
| "falsy (JFloat f) = (f = Finite 0)"
| "falsy (JString s) = (s = [])"
| "falsy (JArray xs) = (xs = [])"
| "falsy (JObject kvs) = (kvs = [])"

text \<open>\<open>d.get(k)\<close> and \<open>d.get(k, default)\<close>.\<close>

definition py_get :: "(string \<times> json) list \<Rightarrow> string \<Rightarrow> json" where
  "py_get d k = (case map_of d k of None \<Rightarrow> JNull | Some v \<Rightarrow> v)"

definition py_get_default :: "(string \<times> json) list \<Rightarrow> string \<Rightarrow> json \<Rightarrow> json" where
  "py_get_default d k dflt = (case map_of d k of None \<Rightarrow> dflt | Some v \<Rightarrow> v)"

text \<open>An exception, carried by its message \<open>str(e)\<close>.\<close>

datatype exn = Exn string

fun exn_str :: "exn \<Rightarrow> string" where
  "exn_str (Exn m) = m"

text \<open>
  The tool descriptor comes from the tool server's client library. Its shape follows the
  data model: a name, a description and an input schema whose \<open>properties\<close>, when
  present, map each parameter name to its declared type and description, both optional.
\<close>

record param_schema =
  ptype :: "string option"
  pdescription :: "string option"

record tool_descriptor =
  name :: string
  description :: string
  properties :: "(string \<times> param_schema) list option"

text \<open>
  A backend connection (\<open>Client(url)\<close>) as the handler uses it: the address it was
  built with, its attribute \<open>base_url\<close> (\<open>None\<close> when the client object has no
  such attribute: the handler reads it once directly and once through
  \<open>getattr(..., "unknown")\<close>), its rendering \<open>str(client)\<close>, the outcome of opening
  it, the outcome of the k-th call of \<open>list_tools\<close> on it (counted from 0) and the
  outcome of \<open>call_tool\<close>.
\<close>

record backend =
  url :: string
  base_url :: "string option"
  client_str :: string
  enter :: "exn option"
  list_tools :: "nat \<Rightarrow> exn + tool_descriptor list"
  call_tool :: "json \<Rightarrow> json \<Rightarrow> exn + json"

text \<open>
  The environment of one request: the three environment variables, the client
  constructor, the current date as \<open>str(date.today())\<close>, the model's
  \<open>generate_content\<close> (contents, system instruction; it returns \<open>response.text\<close>,
  which may be \<open>None\<close>, or raises) and \<open>json.loads\<close>.
\<close>

record world =
  GOOGLE_API_KEY :: "string option"
  FASTMCP_URL :: "string option"
  FASTMCP_FOODCARD_URL :: "string option"
  Client :: "string \<Rightarrow> backend"
  today :: string
  generate_content :: "json \<Rightarrow> string \<Rightarrow> exn + string option"
  json_loads :: "string \<Rightarrow> exn + json"

text \<open>What the handler does to the outside, in order.\<close>

datatype event =
    Connect string
  | ListTools string
  | GenerateContent json string
  | CallTool string json json

fun is_call :: "event \<Rightarrow> bool" where
  "is_call (CallTool u t p) = True"
| "is_call e = False"

fun is_connect :: "event \<Rightarrow> bool" where
  "is_connect (Connect u) = True"
| "is_connect e = False"

fun is_generate :: "event \<Rightarrow> bool" where
  "is_generate (GenerateContent m s) = True"
| "is_generate e = False"

text \<open>
  How a request ends when it does not return an envelope: an \<open>HTTPException\<close> with
  status and detail, or any other exception leaving the handler.
\<close>

datatype failure = HTTPException nat string | Raised exn

record envelope =
  tool :: json
  params :: json
  result :: json
  executed_from :: "string option"

section \<open>Decision engine: \<open>interpret_with_gemini\<close>\<close>

text \<open>
  \<open>TOOL_CALL_SCHEMA\<close>: an object whose required \<open>tool\<close> is a string and whose
  required \<open>params\<close> is an object. It is handed to the model as the response
  schema; the handler itself never evaluates it.
\<close>

definition matches_TOOL_CALL_SCHEMA :: "json \<Rightarrow> bool" where
  "matches_TOOL_CALL_SCHEMA v =
     (case v of
        JObject d \<Rightarrow>
          (case map_of d ''tool'' of Some (JString s) \<Rightarrow> True | _ \<Rightarrow> False)
          \<and> (case map_of d ''params'' of Some (JObject ps) \<Rightarrow> True | _ \<Rightarrow> False)
      | _ \<Rightarrow> False)"

definition nl :: char where
  "nl = CHR 0x0A"

definition quote :: char where
  "quote = CHR 0x27"

text \<open>\<open>sep.join(xs)\<close>.\<close>

fun join :: "string \<Rightarrow> string list \<Rightarrow> string" where
  "join sep [] = []"
| "join sep [x] = x"
| "join sep (x # y # ys) = x @ sep @ join sep (y # ys)"

text \<open>The inner loop over \<open>params.items()\<close>, appending to \<open>param_desc\<close>.\<close>

fun render_params :: "(string \<times> param_schema) list \<Rightarrow> string list \<Rightarrow> string list" where
  "render_params [] param_desc = param_desc"
| "render_params ((pname, schema_dict) # rest) param_desc =
     (let param_type = (case ptype schema_dict of None \<Rightarrow> ''string'' | Some t \<Rightarrow> t);
          param_desc_text = (case pdescription schema_dict of None \<Rightarrow> [] | Some d \<Rightarrow> d);
          desc_part = (if param_desc_text \<noteq> [] then '' - '' @ param_desc_text else [])
      in render_params rest
           (param_desc @ [[quote] @ pname @ [quote] @ '' ('' @ param_type @ '')'' @ desc_part]))"

definition tool_context :: "tool_descriptor \<Rightarrow> string" where
  "tool_context t =
     (let ps = (case properties t of None \<Rightarrow> [] | Some d \<Rightarrow> d);
          param_desc = render_params ps [];
          params_line = (if param_desc \<noteq> [] then join ''; '' param_desc else ''None'')
      in ''- Name: '' @ name t @ [nl] @ ''  Description: '' @ description t @ [nl]
           @ ''  Parameters: '' @ params_line)"

text \<open>The outer loop over \<open>tools\<close>, appending to \<open>tool_context_list\<close>.\<close>

fun tool_contexts :: "tool_descriptor list \<Rightarrow> string list \<Rightarrow> string list" where
  "tool_contexts [] tool_context_list = tool_context_list"
| "tool_contexts (t # ts) tool_context_list =
     tool_contexts ts (tool_context_list @ [tool_context t])"

definition system_instruction :: "world \<Rightarrow> tool_descriptor list \<Rightarrow> string" where
  "system_instruction w tools =
     ''Assume today is '' @ today w @ ''. ''
     @ ''If the user refers to a month only (e.g., '' @ [quote] @ ''October expenses''
     @ [quote] @ ''), use the current year. ''
     @ ''You are an AI financial assistant. ''
     @ ''Respond ONLY with a JSON object matching the provided schema ''
     @ [CHR 0xE2, CHR 0x80, CHR 0x94] @ '' no markdown or text. ''
     @ ''If no tool fits, use '' @ [quote] @ ''None'' @ [quote] @ '' and '' @ [quote]
     @ ''{}'' @ [quote] @ ''.'' @ [nl]
     @ ''---TOOLS---'' @ [nl] @ join [nl] (tool_contexts tools []) @ [nl]
     @ ''---END_TOOLS---''"

definition fallback :: json where
  "fallback = JObject [(''tool'', JNull), (''params'', JObject [])]"

text \<open>
  The body of the \<open>try\<close>: the model call, then \<open>json.loads(response.text)\<close>
  (\<open>json.loads(None)\<close> raises a \<open>TypeError\<close>).
\<close>

definition model_call :: "world \<Rightarrow> json \<Rightarrow> string \<Rightarrow> exn + json" where
  "model_call w user_message sys =
     (case generate_content w user_message sys of
        Inl e \<Rightarrow> Inl e
      | Inr None \<Rightarrow> Inl (Exn ''TypeError'')
      | Inr (Some text) \<Rightarrow> json_loads w text)"

text \<open>The \<open>except Exception\<close> turns every failure of the body into the fallback.\<close>

definition interpret_with_gemini ::
  "world \<Rightarrow> json \<Rightarrow> tool_descriptor list \<Rightarrow> event list \<times> (exn + json)" where
  "interpret_with_gemini w user_message tools =
     (let sys = system_instruction w tools
      in ([GenerateContent user_message sys],
          case model_call w user_message sys of
            Inl e \<Rightarrow> Inr fallback
          | Inr v \<Rightarrow> Inr v))"

section \<open>The handler of \<open>/interpret\<close>\<close>

text \<open>
  Gathering the tools (the first loop over \<open>clients\<close>): the connection is opened outside
  the \<open>try\<close>, so its exception leaves the loop. A failing \<open>list_tools\<close> is caught;
  the handler then formats its warning with \<open>c.base_url\<close>, which raises an
  \<open>AttributeError\<close> out of the \<open>except\<close> block when the client has no such
  attribute, and otherwise the client is skipped.
\<close>

fun gather_tools ::
  "backend list \<Rightarrow> tool_descriptor list \<Rightarrow> event list \<times> (exn + tool_descriptor list)" where
  "gather_tools [] all_tools = ([], Inr all_tools)"
| "gather_tools (c # cs) all_tools =
     (case enter c of
        Some e \<Rightarrow> ([Connect (url c)], Inl e)
      | None \<Rightarrow>
          (case list_tools c 0 of
             Inr tools \<Rightarrow>
               (let rest = gather_tools cs (all_tools @ tools)
                in (Connect (url c) # ListTools (url c) # fst rest, snd rest))
           | Inl e \<Rightarrow>
               (case base_url c of
                  None \<Rightarrow> ([Connect (url c), ListTools (url c)], Inl (Exn ''AttributeError''))
                | Some u \<Rightarrow>
                    (let rest = gather_tools cs all_tools
                     in (Connect (url c) # ListTools (url c) # fst rest, snd rest)))))"

text \<open>
  Finding the client that has the tool (the second loop): each client's catalog is
  fetched again, this being the second call of \<open>list_tools\<close> on that connection.
\<close>

definition has_tool :: "tool_descriptor list \<Rightarrow> json \<Rightarrow> bool" where
  "has_tool tools tool_name = list_ex (\<lambda>t. JString (name t) = tool_name) tools"

fun find_client :: "backend list \<Rightarrow> json \<Rightarrow> event list \<times> backend option" where
  "find_client [] tool_name = ([], None)"
| "find_client (c # cs) tool_name =
     (case list_tools c 1 of
        Inr tools \<Rightarrow>
          if has_tool tools tool_name then ([ListTools (url c)], Some c)
          else (let rest = find_client cs tool_name
                in (ListTools (url c) # fst rest, snd rest))
      | Inl e \<Rightarrow>
          (let rest = find_client cs tool_name
           in (ListTools (url c) # fst rest, snd rest)))"

text \<open>
  \<open>f"{tool_name}"\<close> where the tool is executed. A client is selected only when a
  descriptor's name equals \<open>tool_name\<close>, so only strings reach this point.
\<close>

fun fstr :: "json \<Rightarrow> string" where
  "fstr (JString s) = s"
| "fstr v = []"

text \<open>\<open>getattr(selected_client, "base_url", "unknown")\<close>.\<close>

definition getattr_base_url :: "backend \<Rightarrow> string" where
  "getattr_base_url c = (case base_url c of None \<Rightarrow> ''unknown'' | Some u \<Rightarrow> u)"

text \<open>
  From the decision to the response: \<open>llm_result.get\<close> raises an
  \<open>AttributeError\<close> unless the parsed value is a dict.
\<close>

definition dispatch :: "backend list \<Rightarrow> json \<Rightarrow> event list \<times> (failure + envelope)" where
  "dispatch clients llm_result =
     (case llm_result of
        JObject d \<Rightarrow>
          (let tool_name = py_get d ''tool'';
               ps = py_get_default d ''params'' (JObject [])
           in if falsy tool_name \<or> tool_name = JString ''None''
              then ([], Inr \<lparr>tool = JNull, params = JObject [],
                             result = JString ''No matching tool found.'',
                             executed_from = None\<rparr>)
              else
                (case find_client clients tool_name of
                   (tr, None) \<Rightarrow>
                     (tr, Inr \<lparr>tool = tool_name, params = ps,
                               result = JString ''Tool not found in any client.'',
                               executed_from = None\<rparr>)
                 | (tr, Some selected_client) \<Rightarrow>
                     (case call_tool selected_client tool_name ps of
                        Inr r \<Rightarrow>
                          (tr @ [CallTool (url selected_client) tool_name ps],
                           Inr \<lparr>tool = tool_name, params = ps, result = r,
                                executed_from = Some (getattr_base_url selected_client)\<rparr>)
                      | Inl e \<Rightarrow>
                          (tr @ [CallTool (url selected_client) tool_name ps],
                           Inl (HTTPException 500
                                  (''Error calling tool '' @ [quote] @ fstr tool_name @ [quote]
                                   @ '' on '' @ client_str selected_client @ '': ''
                                   @ exn_str e))))))
      | _ \<Rightarrow> ([], Inl (Raised (Exn ''AttributeError''))))"

text \<open>The body of the \<open>async with\<close> block.\<close>

definition serve :: "world \<Rightarrow> backend list \<Rightarrow> json \<Rightarrow> event list \<times> (failure + envelope)" where
  "serve w clients message =
     (case gather_tools clients [] of
        (tr1, Inl e) \<Rightarrow> (tr1, Inl (Raised e))
      | (tr1, Inr all_tools) \<Rightarrow>
          (case interpret_with_gemini w message all_tools of
             (tr2, Inl e) \<Rightarrow> (tr1 @ tr2, Inl (Raised e))
           | (tr2, Inr llm_result) \<Rightarrow>
               (let d = dispatch clients llm_result
                in (tr1 @ tr2 @ fst d, snd d))))"

definition truthy_env :: "string option \<Rightarrow> bool" where
  "truthy_env v = (case v of None \<Rightarrow> False | Some s \<Rightarrow> s \<noteq> [])"

text \<open>\<open>if URL: clients.append(Client(URL))\<close>, for one environment variable.\<close>

definition client_for :: "world \<Rightarrow> string option \<Rightarrow> backend list" where
  "client_for w v = (case v of None \<Rightarrow> [] | Some u \<Rightarrow> if u \<noteq> [] then [Client w u] else [])"

definition make_clients :: "world \<Rightarrow> backend list" where
  "make_clients w = client_for w (FASTMCP_URL w) @ client_for w (FASTMCP_FOODCARD_URL w)"

text \<open>The handler of \<open>POST /interpret\<close>.\<close>

definition interpret_post ::
  "world \<Rightarrow> (string \<times> json) list \<Rightarrow> event list \<times> (failure + envelope)" where
  "interpret_post w user_input =
     (let message = py_get user_input ''message''
      in if falsy message
         then ([], Inl (HTTPException 400
                          (''Missing '' @ [quote] @ ''message'' @ [quote] @ '' field'')))
         else if \<not> truthy_env (GOOGLE_API_KEY w)
         then ([], Inl (HTTPException 500 ''GOOGLE_API_KEY not set''))
         else if make_clients w = []
         then ([], Inl (HTTPException 500 ''No MCP endpoints configured''))
         else serve w (make_clients w) message)"

section \<open>Notions used by the properties\<close>

text \<open>What a backend adds to the merged catalog: the result of its first listing, if any.\<close>

definition listed :: "backend \<Rightarrow> tool_descriptor list" where
  "listed c = (case list_tools c 0 of Inl e \<Rightarrow> [] | Inr tools \<Rightarrow> tools)"

text \<open>
  The catalog a backend returns during the ownership scan contains a descriptor with the
  given name; a failed fetch contains nothing.
\<close>

definition catalog_has :: "backend \<Rightarrow> json \<Rightarrow> bool" where
  "catalog_has c tool_name =
     (case list_tools c 1 of Inl e \<Rightarrow> False | Inr tools \<Rightarrow> has_tool tools tool_name)"

definition no_match :: envelope where
  "no_match = \<lparr>tool = JNull, params = JObject [],
                result = JString ''No matching tool found.'', executed_from = None\<rparr>"

definition missing_message :: failure where
  "missing_message =
     HTTPException 400 (''Missing '' @ [quote] @ ''message'' @ [quote] @ '' field'')"


section \<open>Example configuration\<close>

definition add_expense :: tool_descriptor where
  "add_expense = \<lparr>name = ''add_expense'', description = ''Add an expense'',
     properties =
       Some [(''date'', \<lparr>ptype = Some ''string'', pdescription = Some ''ISO date''\<rparr>),
             (''amount'', \<lparr>ptype = None, pdescription = None\<rparr>)]\<rparr>"

definition ping :: tool_descriptor where
  "ping = \<lparr>name = ''ping'', description = ''Health check'', properties = None\<rparr>"

text \<open>Two healthy servers that both offer \<open>add_expense\<close>; the second one's tools fail.\<close>

definition expenses :: backend where
  "expenses = \<lparr>url = ''http://expenses'', base_url = Some ''http://expenses'',
     client_str = ''<Client expenses>'',
     enter = None, list_tools = (\<lambda>k. Inr [add_expense]),
     call_tool = (\<lambda>t p. Inr (JObject [(''status'', JString ''ok'')]))\<rparr>"

definition foodcard :: backend where
  "foodcard = \<lparr>url = ''http://foodcard'', base_url = Some ''http://foodcard'',
     client_str = ''<Client foodcard>'',
     enter = None, list_tools = (\<lambda>k. Inr [ping, add_expense]),
     call_tool = (\<lambda>t p. Inl (Exn ''boom''))\<rparr>"

text \<open>A server that connects but cannot list its tools, and one that does not connect.\<close>

definition flaky :: backend where
  "flaky = \<lparr>url = ''http://flaky'', base_url = Some ''http://flaky'',
     client_str = ''<Client flaky>'',
     enter = None, list_tools = (\<lambda>k. Inl (Exn ''timeout'')),
     call_tool = (\<lambda>t p. Inl (Exn ''boom''))\<rparr>"

definition down :: backend where
  "down = \<lparr>url = ''http://down'', base_url = Some ''http://down'',
     client_str = ''<Client down>'',
     enter = Some (Exn ''ConnectError''), list_tools = (\<lambda>k. Inr [add_expense]),
     call_tool = (\<lambda>t p. Inl (Exn ''boom''))\<rparr>"

text \<open>
  Clients whose object has no \<open>base_url\<close> attribute: one that cannot list its tools,
  one that is healthy.
\<close>

definition bare_flaky :: backend where
  "bare_flaky = \<lparr>url = ''http://flaky'', base_url = None, client_str = ''<Client flaky>'',
     enter = None, list_tools = (\<lambda>k. Inl (Exn ''timeout'')),
     call_tool = (\<lambda>t p. Inl (Exn ''boom''))\<rparr>"

definition bare_expenses :: backend where
  "bare_expenses = \<lparr>url = ''http://expenses'', base_url = None,
     client_str = ''<Client expenses>'',
     enter = None, list_tools = (\<lambda>k. Inr [add_expense]),
     call_tool = (\<lambda>t p. Inr (JObject [(''status'', JString ''ok'')]))\<rparr>"

text \<open>\<open>json.loads\<close> on the three texts the examples use.\<close>

definition example_loads :: "string \<Rightarrow> exn + json" where
  "example_loads text =
     (if text = ''[]'' then Inr (JArray [])
      else if text = ''{}'' then Inr (JObject [])
      else Inl (Exn ''JSONDecodeError''))"

definition example_world :: "backend \<Rightarrow> backend \<Rightarrow> exn + string option \<Rightarrow> world" where
  "example_world b1 b2 reply =
     \<lparr>GOOGLE_API_KEY = Some ''key'', FASTMCP_URL = Some (url b1),
      FASTMCP_FOODCARD_URL = Some (url b2),
      Client = (\<lambda>u. if u = url b1 then b1 else b2), today = ''2025-01-01'',
      generate_content = (\<lambda>m s. reply), json_loads = example_loads\<rparr>"

lemmas example_defs =
  add_expense_def ping_def expenses_def foodcard_def flaky_def down_def
  bare_flaky_def bare_expenses_def example_loads_def example_world_def

lemmas handler_defs =
  interpret_post_def serve_def make_clients_def client_for_def truthy_env_def
  interpret_with_gemini_def model_call_def dispatch_def py_get_def py_get_default_def
  has_tool_def getattr_base_url_def fallback_def Let_def

section \<open>The loops\<close>

text \<open>
  The gathering while every client either lists its tools or has a \<open>base_url\<close> to log:
  every connection opens, and a failed listing adds nothing.
\<close>

lemma gather_tools_all_enter:
  "\<forall>c\<in>set cs. enter c = None \<and> (isl (list_tools c 0) \<longrightarrow> base_url c \<noteq> None) \<Longrightarrow>
     snd (gather_tools cs acc) = Inr (acc @ concat (map listed cs))"
  by (induction cs arbitrary: acc)
     (auto simp: listed_def Let_def split: sum.splits option.splits)

lemma gather_tools_skip:
  "enter c = None \<Longrightarrow> list_tools c 0 = Inl e \<Longrightarrow> base_url c = Some u \<Longrightarrow>
     snd (gather_tools (cs1 @ c # cs2) acc) = snd (gather_tools (cs1 @ cs2) acc)"
  by (induction cs1 arbitrary: acc) (auto simp: Let_def split: option.splits sum.splits)

text \<open>A connection that does not open ends the gathering: nothing after it is touched.\<close>

lemma gather_tools_abort:
  "\<forall>b\<in>set pre. enter b = None \<and> (isl (list_tools b 0) \<longrightarrow> base_url b \<noteq> None) \<Longrightarrow>
   enter c = Some e \<Longrightarrow>
     snd (gather_tools (pre @ c # post) acc) = Inl e
     \<and> filter is_connect (fst (gather_tools (pre @ c # post) acc)) =
         map (\<lambda>b. Connect (url b)) (pre @ [c])"
  by (induction pre arbitrary: acc) (auto simp: Let_def split: sum.splits option.splits)

text \<open>
  So does a failed listing on a client without \<open>base_url\<close>: the warning cannot be
  formatted, and the backends after it are never opened.
\<close>

lemma gather_tools_log_abort:
  "\<forall>b\<in>set pre. enter b = None \<and> (isl (list_tools b 0) \<longrightarrow> base_url b \<noteq> None) \<Longrightarrow>
   enter c = None \<Longrightarrow> list_tools c 0 = Inl e \<Longrightarrow> base_url c = None \<Longrightarrow>
     snd (gather_tools (pre @ c # post) acc) = Inl (Exn ''AttributeError'')
     \<and> filter is_connect (fst (gather_tools (pre @ c # post) acc)) =
         map (\<lambda>b. Connect (url b)) (pre @ [c])"
  by (induction pre arbitrary: acc) (auto simp: Let_def split: sum.splits option.splits)

lemma find_client_none:
  "\<forall>c\<in>set cs. \<not> catalog_has c tn \<Longrightarrow>
     find_client cs tn = (map (\<lambda>c. ListTools (url c)) cs, None)"
  by (induction cs) (auto simp: catalog_has_def Let_def split: sum.splits)

lemma find_client_first:
  "\<forall>c\<in>set pre. \<not> catalog_has c tn \<Longrightarrow> catalog_has owner tn \<Longrightarrow>
     find_client (pre @ owner # post) tn =
       (map (\<lambda>c. ListTools (url c)) (pre @ [owner]), Some owner)"
  by (induction pre) (auto simp: catalog_has_def Let_def split: sum.splits)

lemma find_client_some:
  "snd (find_client cs tn) = Some owner \<Longrightarrow>
     \<exists>pre post. cs = pre @ owner # post
       \<and> (\<forall>c\<in>set pre. \<not> catalog_has c tn) \<and> catalog_has owner tn"
proof (induction cs)
  case Nil
  then show ?case by simp
next
  case (Cons c cs)
  show ?case
  proof (cases "catalog_has c tn")
    case True
    with Cons.prems have "owner = c"
      by (auto simp: catalog_has_def split: sum.splits)
    with True show ?thesis by (intro exI[of _ "[]"] exI[of _ cs]) simp
  next
    case False
    with Cons.prems have "snd (find_client cs tn) = Some owner"
      by (auto simp: catalog_has_def Let_def split: sum.splits)
    from Cons.IH[OF this] obtain pre post where
      "cs = pre @ owner # post" "\<forall>c\<in>set pre. \<not> catalog_has c tn" "catalog_has owner tn"
      by blast
    with False show ?thesis by (intro exI[of _ "c # pre"] exI[of _ post]) simp
  qed
qed

text \<open>Only a string can be the name of a tool that some catalog has.\<close>

lemma catalog_has_string: "catalog_has c tn \<Longrightarrow> tn = JString (fstr tn)"
  by (auto simp: catalog_has_def has_tool_def list_ex_iff split: sum.splits)


section \<open>The dispatcher\<close>

text \<open>What the dispatcher does once the first backend that has the tool is known.\<close>

lemma dispatch_found:
  assumes "\<not> falsy (py_get d ''tool'')" "py_get d ''tool'' \<noteq> JString ''None''"
    and "\<forall>c\<in>set pre. \<not> catalog_has c (py_get d ''tool'')"
    and "catalog_has owner (py_get d ''tool'')"
  shows "dispatch (pre @ owner # post) (JObject d) =
     (map (\<lambda>c. ListTools (url c)) (pre @ [owner])
        @ [CallTool (url owner) (py_get d ''tool'')
             (py_get_default d ''params'' (JObject []))],
      case call_tool owner (py_get d ''tool'') (py_get_default d ''params'' (JObject [])) of
        Inr r \<Rightarrow> Inr \<lparr>tool = py_get d ''tool'',
                      params = py_get_default d ''params'' (JObject []),
                      result = r, executed_from = Some (getattr_base_url owner)\<rparr>
      | Inl e \<Rightarrow> Inl (HTTPException 500
                  (''Error calling tool '' @ [quote] @ fstr (py_get d ''tool'') @ [quote]
                   @ '' on '' @ client_str owner @ '': '' @ exn_str e)))"
  using assms find_client_first[OF assms(3,4), of post]
  by (simp add: dispatch_def Let_def split: sum.splits)

lemma dispatch_status:
  "snd (dispatch cs r) = Inl (HTTPException n x) \<Longrightarrow> n = 500"
  by (auto simp: dispatch_def Let_def
           split: json.splits prod.splits option.splits sum.splits if_splits)

lemma serve_status:
  "snd (serve w cs m) = Inl (HTTPException n x) \<Longrightarrow> n = 500"
  by (auto simp: serve_def Let_def interpret_with_gemini_def dest: dispatch_status
           split: prod.splits sum.splits)

text \<open>The response of a request that reaches the dispatcher is the dispatcher's.\<close>

lemma serve_dispatch:
  "snd (gather_tools cs []) = Inr tools \<Longrightarrow>
   snd (interpret_with_gemini w m tools) = Inr r \<Longrightarrow>
     snd (serve w cs m) = snd (dispatch cs r)"
  by (auto simp: serve_def Let_def split: prod.splits sum.splits)

text \<open>
  C1. When several backends offer a tool with the decided name, the owner is the first
  backend in configuration order whose catalog, as fetched during the scan, has a
  descriptor with that name: whatever the backends after it offer, the scan returns it,
  and the only tool invocation of the dispatcher is the one on it.
\<close>

theorem first_owner_wins:
  assumes "\<not> falsy (py_get d ''tool'')" "py_get d ''tool'' \<noteq> JString ''None''"
    and "\<forall>c\<in>set pre. \<not> catalog_has c (py_get d ''tool'')"
    and "catalog_has owner (py_get d ''tool'')"
  shows "snd (find_client (pre @ owner # post) (py_get d ''tool'')) = Some owner \<and>
         filter is_call (fst (dispatch (pre @ owner # post) (JObject d))) =
           [CallTool (url owner) (py_get d ''tool'')
              (py_get_default d ''params'' (JObject []))]"
  using find_client_first[OF assms(3,4), of post] dispatch_found[OF assms, of post]
  by (simp add: filter_map comp_def)

theorem first_owner_wins_witness:
  "catalog_has expenses (JString ''add_expense'')
   \<and> catalog_has foodcard (JString ''add_expense'')
   \<and> snd (find_client [flaky, expenses, foodcard] (JString ''add_expense'')) = Some expenses
   \<and> filter is_call (fst (dispatch [flaky, expenses, foodcard]
         (JObject [(''tool'', JString ''add_expense'')]))) =
       [CallTool ''http://expenses'' (JString ''add_expense'') (JObject [])]"
  using first_owner_wins[of "[(''tool'', JString ''add_expense'')]" "[flaky]" expenses
      "[foodcard]"]
  by (simp add: catalog_has_def has_tool_def py_get_def py_get_default_def example_defs)

text \<open>
  C3. A decision whose tool is null or the string "None" makes the dispatcher return the
  envelope with tool null, empty params and result "No matching tool found." at once:
  it lists no catalog and invokes no tool.
\<close>

theorem no_tool_short_circuit:
  "py_get d ''tool'' = JNull \<or> py_get d ''tool'' = JString ''None'' \<Longrightarrow>
     dispatch clients (JObject d) = ([], Inr no_match)"
  by (auto simp: dispatch_def no_match_def Let_def)

theorem no_tool_short_circuit_witness:
  "dispatch [expenses, foodcard]
       (JObject [(''tool'', JString ''None''), (''params'', JObject [])])
     = ([], Inr no_match)
   \<and> dispatch [expenses, foodcard] (JObject [(''tool'', JNull), (''params'', JObject [])])
     = ([], Inr no_match)"
  using no_tool_short_circuit[of "[(''tool'', JString ''None''), (''params'', JObject [])]"
      "[expenses, foodcard]"]
    no_tool_short_circuit[of "[(''tool'', JNull), (''params'', JObject [])]"
      "[expenses, foodcard]"]
  by (simp add: py_get_def)

text \<open>
  C4. When no backend's catalog has the decided tool during the scan, the dispatcher
  lists every backend once, invokes nothing and returns the envelope with the tool, the
  params and result "Tool not found in any client."; a backend whose fetch fails in the
  scan is passed over, the scan going on with the backends after it.
\<close>

theorem tool_not_found:
  assumes "\<not> falsy (py_get d ''tool'')" "py_get d ''tool'' \<noteq> JString ''None''"
    and "\<forall>c\<in>set clients. \<not> catalog_has c (py_get d ''tool'')"
  shows "dispatch clients (JObject d) =
           (map (\<lambda>c. ListTools (url c)) clients,
            Inr \<lparr>tool = py_get d ''tool'',
                 params = py_get_default d ''params'' (JObject []),
                 result = JString ''Tool not found in any client.'',
                 executed_from = None\<rparr>)
         \<and> (\<forall>c cs e. list_tools c 1 = Inl e \<longrightarrow>
               snd (find_client (c # cs) (py_get d ''tool'')) =
               snd (find_client cs (py_get d ''tool'')))"
  using assms find_client_none[OF assms(3)]
  by (simp add: dispatch_def Let_def)

theorem tool_not_found_witness:
  "dispatch [flaky, expenses] (JObject [(''tool'', JString ''delete_all'')]) =
     ([ListTools ''http://flaky'', ListTools ''http://expenses''],
      Inr \<lparr>tool = JString ''delete_all'', params = JObject [],
           result = JString ''Tool not found in any client.'', executed_from = None\<rparr>)"
  using tool_not_found[of "[(''tool'', JString ''delete_all'')]" "[flaky, expenses]"]
  by (simp add: catalog_has_def has_tool_def py_get_def py_get_default_def example_defs)

text \<open>
  C7. When the scan finds an owner and its tool invocation raises, the dispatcher ends
  with an HTTP 500 error whose detail holds the tool name, the owner's rendering and the
  exception's message; when the invocation succeeds, the envelope holds the tool, the
  params, the result and, as \<open>executed_from\<close>, the owner's \<open>base_url\<close> when the
  client object has one and the string "unknown" otherwise.
\<close>

theorem execution_outcome:
  assumes "\<not> falsy (py_get d ''tool'')" "py_get d ''tool'' \<noteq> JString ''None''"
    and "snd (find_client clients (py_get d ''tool'')) = Some owner"
  shows "(\<forall>e. call_tool owner (py_get d ''tool'') (py_get_default d ''params'' (JObject []))
               = Inl e \<longrightarrow>
            (\<exists>s. py_get d ''tool'' = JString s \<and>
              snd (dispatch clients (JObject d)) =
                Inl (HTTPException 500
                       (''Error calling tool '' @ [quote] @ s @ [quote]
                        @ '' on '' @ client_str owner @ '': '' @ exn_str e))))
       \<and> (\<forall>r. call_tool owner (py_get d ''tool'') (py_get_default d ''params'' (JObject []))
               = Inr r \<longrightarrow>
            snd (dispatch clients (JObject d)) =
              Inr \<lparr>tool = py_get d ''tool'',
                   params = py_get_default d ''params'' (JObject []),
                   result = r,
                   executed_from =
                     Some (case base_url owner of None \<Rightarrow> ''unknown'' | Some u \<Rightarrow> u)\<rparr>)"
proof -
  from find_client_some[OF assms(3)] obtain pre post where
    cs: "clients = pre @ owner # post" and
    pre: "\<forall>c\<in>set pre. \<not> catalog_has c (py_get d ''tool'')" and
    own: "catalog_has owner (py_get d ''tool'')"
    by blast
  have str: "py_get d ''tool'' = JString (fstr (py_get d ''tool''))"
    using own by (rule catalog_has_string)
  show ?thesis
    unfolding cs dispatch_found[OF assms(1,2) pre own, of post]
    using str by (auto simp: getattr_base_url_def split: sum.splits)
qed

theorem execution_outcome_witness:
  "snd (dispatch [expenses, foodcard] (JObject [(''tool'', JString ''add_expense'')])) =
     Inr \<lparr>tool = JString ''add_expense'', params = JObject [],
          result = JObject [(''status'', JString ''ok'')],
          executed_from = Some ''http://expenses''\<rparr>
   \<and> snd (dispatch [flaky, foodcard] (JObject [(''tool'', JString ''add_expense'')])) =
     Inl (HTTPException 500
            (''Error calling tool '' @ [quote] @ ''add_expense'' @ [quote]
             @ '' on <Client foodcard>: boom''))
   \<and> snd (dispatch [bare_expenses] (JObject [(''tool'', JString ''add_expense'')])) =
     Inr \<lparr>tool = JString ''add_expense'', params = JObject [],
          result = JObject [(''status'', JString ''ok'')],
          executed_from = Some ''unknown''\<rparr>"
  using execution_outcome[of "[(''tool'', JString ''add_expense'')]" "[expenses, foodcard]"
      expenses]
    execution_outcome[of "[(''tool'', JString ''add_expense'')]" "[flaky, foodcard]" foodcard]
    execution_outcome[of "[(''tool'', JString ''add_expense'')]" "[bare_expenses]"
      bare_expenses]
  by (simp add: has_tool_def py_get_def py_get_default_def example_defs)

text \<open>
  The owner built for the address \<open>http://expenses\<close> has no \<open>base_url\<close>: its tool
  runs, and the envelope names "unknown" as the place of execution, not the owner.
\<close>

theorem executed_from_unknown_counterexample:
  "catalog_has bare_expenses (JString ''add_expense'')
   \<and> url bare_expenses = ''http://expenses''
   \<and> filter is_call (fst (dispatch [bare_expenses]
         (JObject [(''tool'', JString ''add_expense'')]))) =
       [CallTool ''http://expenses'' (JString ''add_expense'') (JObject [])]
   \<and> snd (dispatch [bare_expenses] (JObject [(''tool'', JString ''add_expense'')])) =
       Inr \<lparr>tool = JString ''add_expense'', params = JObject [],
            result = JObject [(''status'', JString ''ok'')],
            executed_from = Some ''unknown''\<rparr>
   \<and> ''unknown'' \<noteq> url bare_expenses"
  by (simp add: catalog_has_def handler_defs example_defs)

text \<open>
  C10. Any falsy tool value, in particular the empty string and a missing \<open>tool\<close> key,
  short-circuits like null and "None": the same envelope, no backend queried. A decision
  with no \<open>params\<close> key is dispatched exactly as the same decision with empty params.
\<close>

theorem falsy_tool_short_circuit:
  "(falsy (py_get d ''tool'') \<longrightarrow> dispatch clients (JObject d) = ([], Inr no_match))
   \<and> (map_of d ''tool'' = None \<longrightarrow> dispatch clients (JObject d) = ([], Inr no_match))
   \<and> (py_get d ''tool'' = JString [] \<longrightarrow> dispatch clients (JObject d) = ([], Inr no_match))
   \<and> (map_of d ''params'' = None \<longrightarrow>
        dispatch clients (JObject d) =
        dispatch clients (JObject (d @ [(''params'', JObject [])])))"
  by (auto simp: dispatch_def no_match_def Let_def py_get_def py_get_default_def map_add_def
           split: option.splits)

theorem falsy_tool_short_circuit_witness:
  "dispatch [expenses] (JObject [(''tool'', JString [])]) = ([], Inr no_match)
   \<and> dispatch [expenses] (JObject [(''params'', JObject [])]) = ([], Inr no_match)
   \<and> dispatch [expenses] (JObject [(''tool'', JString ''add_expense'')]) =
       dispatch [expenses]
         (JObject [(''tool'', JString ''add_expense''), (''params'', JObject [])])"
  using falsy_tool_short_circuit[of "[(''tool'', JString [])]" "[expenses]"]
    falsy_tool_short_circuit[of "[(''params'', JObject [])]" "[expenses]"]
    falsy_tool_short_circuit[of "[(''tool'', JString ''add_expense'')]" "[expenses]"]
  by (simp add: py_get_def)

section \<open>The catalog aggregator\<close>

text \<open>
  C5. A backend that raises while its tools are listed is meant to be skipped, and is
  when its client object has a \<open>base_url\<close>. When it has none, the warning of the
  \<open>except\<close> block raises in turn: with a first backend that connects, fails to list and
  has no \<open>base_url\<close>, and a healthy second one, the request ends with that exception,
  the second backend is never opened and no catalog is merged.
\<close>

theorem listing_failure_aborts:
  "interpret_post (example_world bare_flaky expenses (Inr (Some ''{}'')))
       [(''message'', JString ''hi'')]
     = ([Connect ''http://flaky'', ListTools ''http://flaky''],
        Inl (Raised (Exn ''AttributeError'')))"
  by (simp add: handler_defs example_defs)

text \<open>
  C6. The connections are opened one at a time in configuration order, but a connection
  that fails to open is not passed over: with a first backend that does not connect and
  a healthy second one, the request ends with the connection's exception, the second
  backend is never opened and the model is never asked.
\<close>

theorem connect_failure_aborts:
  "interpret_post (example_world down expenses (Inr (Some ''{}'')))
       [(''message'', JString ''hi'')]
     = ([Connect ''http://down''], Inl (Raised (Exn ''ConnectError'')))"
  by (simp add: handler_defs example_defs)

section \<open>The decision engine\<close>

text \<open>
  C2. When the model call raises, when the response has no text, or when the text does
  not parse as JSON, the engine returns the fallback decision and raises nothing. A text
  that parses is returned as parsed, whether or not it matches the response schema.
\<close>

theorem engine_fallback:
  "(\<forall>e. generate_content w m (system_instruction w tools) = Inl e \<longrightarrow>
       snd (interpret_with_gemini w m tools) = Inr fallback)
   \<and> (generate_content w m (system_instruction w tools) = Inr None \<longrightarrow>
       snd (interpret_with_gemini w m tools) = Inr fallback)
   \<and> (\<forall>text e. generate_content w m (system_instruction w tools) = Inr (Some text)
         \<and> json_loads w text = Inl e \<longrightarrow>
       snd (interpret_with_gemini w m tools) = Inr fallback)
   \<and> (\<forall>text v. generate_content w m (system_instruction w tools) = Inr (Some text)
         \<and> json_loads w text = Inr v \<longrightarrow>
       snd (interpret_with_gemini w m tools) = Inr v)
   \<and> \<not> isl (snd (interpret_with_gemini w m tools))"
  by (auto simp: interpret_with_gemini_def model_call_def Let_def
           split: sum.splits option.splits)

theorem engine_fallback_witness:
  "snd (interpret_with_gemini (example_world expenses foodcard (Inl (Exn ''network down'')))
          (JString ''hi'') [add_expense]) = Inr fallback
   \<and> snd (interpret_with_gemini (example_world expenses foodcard (Inr (Some ''not json'')))
          (JString ''hi'') [add_expense]) = Inr fallback
   \<and> snd (interpret_with_gemini (example_world expenses foodcard (Inr (Some ''{}'')))
          (JString ''hi'') [add_expense]) = Inr (JObject [])"
  using engine_fallback[of "example_world expenses foodcard (Inl (Exn ''network down''))"
      "JString ''hi''" "[add_expense]"]
    engine_fallback[of "example_world expenses foodcard (Inr (Some ''not json''))"
      "JString ''hi''" "[add_expense]"]
    engine_fallback[of "example_world expenses foodcard (Inr (Some ''{}''))"
      "JString ''hi''" "[add_expense]"]
  by (simp add: example_world_def example_loads_def)

text \<open>
  A reply that is valid JSON but not an object violates the schema; the engine returns
  it unchanged instead of the fallback, and the request then ends with an exception.
\<close>

theorem engine_schema_violation_counterexample:
  "\<not> matches_TOOL_CALL_SCHEMA (JArray [])
   \<and> snd (interpret_with_gemini (example_world expenses foodcard (Inr (Some ''[]'')))
          (JString ''hi'') [add_expense]) = Inr (JArray [])
   \<and> JArray [] \<noteq> fallback
   \<and> snd (interpret_post (example_world expenses foodcard (Inr (Some ''[]'')))
          [(''message'', JString ''hi'')]) = Inl (Raised (Exn ''AttributeError''))"
  by (simp add: handler_defs example_defs matches_TOOL_CALL_SCHEMA_def)



section \<open>The request\<close>

text \<open>
  C8. A request whose message is missing or falsy, the empty string in particular, is
  rejected with the 400 missing-field error before any connection or model call. Any
  other message, one of whitespace only included, is never answered with a 400.
\<close>

theorem falsy_message_rejected:
  "(falsy (py_get user_input ''message'') \<longrightarrow>
      interpret_post w user_input = ([], Inl missing_message))
   \<and> (map_of user_input ''message'' = None \<longrightarrow>
      interpret_post w user_input = ([], Inl missing_message))
   \<and> (py_get user_input ''message'' = JString [] \<longrightarrow>
      interpret_post w user_input = ([], Inl missing_message))
   \<and> (\<not> falsy (py_get user_input ''message'') \<longrightarrow>
      (\<forall>x. snd (interpret_post w user_input) \<noteq> Inl (HTTPException 400 x)))"
  by (auto simp: interpret_post_def missing_message_def Let_def py_get_def
           dest: serve_status split: option.splits)

theorem falsy_message_rejected_witness:
  "interpret_post (example_world expenses foodcard (Inr (Some ''{}''))) []
     = ([], Inl missing_message)
   \<and> interpret_post (example_world expenses foodcard (Inr (Some ''{}'')))
        [(''message'', JString [])] = ([], Inl missing_message)
   \<and> snd (interpret_post (example_world expenses foodcard (Inr (Some ''{}'')))
        [(''message'', JString ''hi'')]) \<noteq> Inl missing_message"
  using falsy_message_rejected[of "[]" "example_world expenses foodcard (Inr (Some ''{}''))"]
    falsy_message_rejected[of "[(''message'', JString [])]"
      "example_world expenses foodcard (Inr (Some ''{}''))"]
    falsy_message_rejected[of "[(''message'', JString ''hi'')]"
      "example_world expenses foodcard (Inr (Some ''{}''))"]
  by (simp add: py_get_def missing_message_def)

text \<open>
  A message of three spaces is truthy: both backends are opened, the model is asked
  once, and the request is answered with an envelope.
\<close>

theorem whitespace_message_counterexample:
  "snd (interpret_post (example_world expenses foodcard (Inr (Some ''{}'')))
          [(''message'', JString ''   '')]) = Inr no_match
   \<and> filter is_connect
        (fst (interpret_post (example_world expenses foodcard (Inr (Some ''{}'')))
                [(''message'', JString ''   '')]))
      = [Connect ''http://expenses'', Connect ''http://foodcard'']
   \<and> length (filter is_generate
        (fst (interpret_post (example_world expenses foodcard (Inr (Some ''{}'')))
                [(''message'', JString ''   '')]))) = 1"
  by (simp add: handler_defs example_defs no_match_def)

end
